theory Spec2Isabelle
  imports Complex_Main
begin

section \<open>JavaScript values and strings\<close>

text \<open>
  A JavaScript string is modelled as a \<^typ>\<open>string\<close> holding its UTF-8 bytes. Substring
  tests on well-formed text agree between UTF-16 code units and UTF-8 bytes, so
  \<open>String.prototype.includes\<close> is a search for a contiguous run of bytes.
  \<open>toLowerCase\<close> and \<open>trim\<close> are modelled on the ASCII range: letters \<open>A\<close> to \<open>Z\<close>
  and the ASCII white space; other bytes are left as they are.
\<close>

fun startsWith :: "string \<Rightarrow> string \<Rightarrow> bool" where
  "startsWith s [] = True"
| "startsWith [] (n # ns) = False"
| "startsWith (c # cs) (n # ns) = (c = n \<and> startsWith cs ns)"

fun str_includes :: "string \<Rightarrow> string \<Rightarrow> bool" where
  "str_includes [] needle = (needle = [])"
| "str_includes (c # cs) needle = (startsWith (c # cs) needle \<or> str_includes cs needle)"

definition lowerChar :: "char \<Rightarrow> char" where
  "lowerChar c =
     (let n = of_char c :: nat in if 65 \<le> n \<and> n \<le> 90 then char_of (n + 32) else c)"

definition toLowerCase :: "string \<Rightarrow> string" where
  "toLowerCase s = map lowerChar s"



text \<open>
  The result of reading a reference: \<open>null\<close>, \<open>undefined\<close> or an object. An array read
  past its end gives \<open>undefined\<close> in JavaScript; it does not raise.
\<close>

datatype 'a js_ref = JNull | JUndefined | JObj 'a

definition arrayGet :: "'a list \<Rightarrow> nat \<Rightarrow> 'a js_ref" where
  "arrayGet xs i = (if i < length xs then JObj (xs ! i) else JUndefined)"

text \<open>A thrown \<open>Error\<close>, carrying its message.\<close>

datatype error = Error (message: string)

section \<open>Tasks and the round-robin queue\<close>

text \<open>
  The ephemeral task objects built by \<open>loadTasksFromDatabase\<close>, \<open>setupDefaultTasks\<close> and
  \<open>addTask\<close>. A field the object literal does not set is \<open>None\<close>.
\<close>

record task =
  task_id :: string
  task_message :: string
  task_type :: string
  task_urlId :: "string option"
  task_url :: "string option"
  task_urlType :: "string option"
  task_priority :: "string option"
  task_deploymentId :: "string option"
  task_githubRepo :: "string option"
  task_addedAt :: "int option"

text \<open>The fields of \<open>OrchestrationAgent\<close> that the scheduler reads and writes.\<close>

record agent =
  initialized :: bool
  has_database :: bool
  taskQueue :: "task list"
  currentTaskIndex :: nat

text \<open>
  \<open>getNextTask\<close>: \<open>null\<close> on an empty queue (the index is left alone); otherwise the
  element at the current index, which is \<open>undefined\<close> when the index is past the end,
  and the index advances modulo the queue length.
\<close>

definition getNextTask :: "agent \<Rightarrow> task js_ref \<times> agent" where
  "getNextTask a =
     (if length (taskQueue a) = 0 then (JNull, a)
      else (arrayGet (taskQueue a) (currentTaskIndex a),
            a\<lparr>currentTaskIndex := (currentTaskIndex a + 1) mod length (taskQueue a)\<rparr>))"

text \<open>\<open>n\<close> successive calls of \<open>getNextTask\<close>, with the results in call order.\<close>

fun getNextTask_times :: "nat \<Rightarrow> agent \<Rightarrow> task js_ref list \<times> agent" where
  "getNextTask_times 0 a = ([], a)"
| "getNextTask_times (Suc n) a =
     (let (r, a') = getNextTask a; (rs, a'') = getNextTask_times n a' in (r # rs, a''))"

section \<open>The orchestration database\<close>

text \<open>
  The relational store is outside the repository. It is modelled as tables held in lists,
  with the columns the code reads and writes. Timestamps are milliseconds since the epoch
  and the clock is an input of each operation. A column the code fills from a JavaScript
  value of no fixed type holds a \<open>jsval\<close>.
\<close>

datatype jsval = VNull | VUndefined | VStr string | VNum int | VBool bool

fun truthy :: "jsval \<Rightarrow> bool" where
  "truthy VNull = False"
| "truthy VUndefined = False"
| "truthy (VStr s) = (s \<noteq> [])"
| "truthy (VNum n) = (n \<noteq> 0)"
| "truthy (VBool b) = b"

text \<open>An object literal used as a bag of named values, keys in insertion order.\<close>

type_synonym metadata = "(string \<times> jsval) list"

definition js_prop :: "metadata \<Rightarrow> string \<Rightarrow> jsval" where
  "js_prop md k = (case map_of md k of None \<Rightarrow> VUndefined | Some v \<Rightarrow> v)"

record github_repo =
  repo_id :: string
  repo_owner :: string
  repo_name :: string

record monitored_url =
  url_id :: string
  url :: string
  url_type :: string
  url_priority :: string
  url_status :: string
  last_checked_at :: "int option"
  url_updated_at :: "int option"

record deployment =
  deployment_id :: string
  deployment_name :: string
  deployment_status :: string
  github_repo_id :: "string option"
  monitored_url_id :: "string option"
  last_run_at :: "int option"
  next_run_at :: "int option"
  run_count :: nat
  error_count :: nat
  last_error :: "string option"
  deployment_updated_at :: "int option"

text \<open>A deployment row with its two embedded resources, as the joined select returns it.\<close>

record deployment_joined = deployment +
  github_repos :: "github_repo option"
  monitored_urls :: "monitored_url option"

record feature_request =
  feature_id :: string
  feature_name :: string
  description :: string
  category :: string
  priority :: string
  requested_by_username :: string
  tweet_url :: string
  target_account :: string
  reply_text :: string
  status :: string
  github_repo :: "string option"
  assigned_to :: jsval
  github_issue_url :: "string option"
  implementation_started_at :: "int option"
  implementation_completed_at :: "int option"
  implementation_failed_at :: "int option"
  pull_request_url :: jsval
  pull_request_number :: jsval
  implementation_error :: jsval
  implementation_metadata :: "metadata option"
  updated_at :: "int option"

record agent_log =
  log_feature_request_id :: string
  log_action :: string
  log_message_sent :: "string option"
  log_response_received :: "string option"
  log_status :: string
  log_error_message :: "string option"
  log_created_at :: int

text \<open>
  A value sent for a column: a literal, or an SQL expression that the store computes on
  the row being updated. The member \<open>raw\<close> of the Supabase client, which the service calls
  to build such expressions, is not part of the repository: \<open>client_raw\<close> is what the call
  gives, a column value or the error it throws.
\<close>

datatype 'a column_value = Lit 'a | Raw string

record db =
  credentials :: bool
  client_raw :: "string \<Rightarrow> error + nat column_value"
  tbl_monitored_urls :: "monitored_url list"
  tbl_github_repos :: "github_repo list"
  tbl_deployments :: "deployment list"
  tbl_feature_requests :: "feature_request list"
  tbl_developer_agent_logs :: "agent_log list"

text \<open>
  Every method of the database service starts with
  \<open>if (!this.initialized) await this.initialize()\<close>, and \<open>initialize\<close> throws when the
  Supabase credentials are missing from the environment.
\<close>

definition db_initialize :: "db \<Rightarrow> error + unit" where
  "db_initialize d =
     (if credentials d then Inr ()
      else Inl (Error ''Supabase credentials not found in environment variables''))"

text \<open>
  \<open>.update(u).eq('id', i).select().single()\<close>: the rows with the given key are updated;
  the request fails, and nothing is changed, unless exactly one row is returned.
\<close>

definition update_single ::
  "('r \<Rightarrow> bool) \<Rightarrow> ('r \<Rightarrow> 'r) \<Rightarrow> 'r list \<Rightarrow> error + ('r \<times> 'r list)" where
  "update_single sel upd rows =
     (case filter sel rows of
        [r] \<Rightarrow> Inr (upd r, map (\<lambda>x. if sel x then upd x else x) rows)
      | _ \<Rightarrow> Inl (Error ''JSON object requested, multiple (or no) rows returned''))"

definition getUrlsToCheck :: "db \<Rightarrow> error + monitored_url list" where
  "getUrlsToCheck d =
     (case db_initialize d of
        Inl e \<Rightarrow> Inl e
      | Inr _ \<Rightarrow> Inr (filter (\<lambda>u. url_status u = ''active'') (tbl_monitored_urls d)))"

definition join_deployment :: "db \<Rightarrow> deployment \<Rightarrow> deployment_joined" where
  "join_deployment d r =
     deployment.extend r
       \<lparr>github_repos =
          (case github_repo_id r of None \<Rightarrow> None
           | Some i \<Rightarrow> find (\<lambda>g. repo_id g = i) (tbl_github_repos d)),
        monitored_urls =
          (case monitored_url_id r of None \<Rightarrow> None
           | Some i \<Rightarrow> find (\<lambda>u. url_id u = i) (tbl_monitored_urls d))\<rparr>"

definition getDeploymentsToRun :: "db \<Rightarrow> int \<Rightarrow> error + deployment_joined list" where
  "getDeploymentsToRun d now =
     (case db_initialize d of
        Inl e \<Rightarrow> Inl e
      | Inr _ \<Rightarrow>
          Inr (map (join_deployment d)
                 (filter (\<lambda>r. deployment_status r = ''active'' \<and>
                               (case next_run_at r of None \<Rightarrow> True | Some t \<Rightarrow> t < now))
                    (tbl_deployments d))))"

definition updateUrlCheckStatus :: "db \<Rightarrow> string \<Rightarrow> int \<Rightarrow> error + (monitored_url \<times> db)" where
  "updateUrlCheckStatus d urlId now =
     (case db_initialize d of
        Inl e \<Rightarrow> Inl e
      | Inr _ \<Rightarrow>
          (case update_single (\<lambda>u. url_id u = urlId)
                  (\<lambda>u. u\<lparr>last_checked_at := Some now, url_updated_at := Some now\<rparr>)
                  (tbl_monitored_urls d) of
             Inl e \<Rightarrow> Inl e
           | Inr (r, rows) \<Rightarrow> Inr (r, d\<lparr>tbl_monitored_urls := rows\<rparr>)))"

text \<open>
  \<open>updateDeploymentRun\<close> builds \<open>updateData\<close> first; the two counters are the values of
  \<open>this.supabase.raw('run_count + 1')\<close> and \<open>this.supabase.raw('error_count + 1')\<close>. The
  store evaluates these two expressions by \<open>sql_counter\<close>.
\<close>

record deployment_update =
  upd_last_run_at :: int
  upd_run_count :: "nat column_value"
  upd_updated_at :: int
  upd_next_run_at :: "int option"
  upd_error_count :: "nat column_value option"
  upd_last_error :: "string option option"

definition updateDeploymentRun_data ::
  "db \<Rightarrow> bool \<Rightarrow> string option \<Rightarrow> int \<Rightarrow> error + deployment_update" where
  "updateDeploymentRun_data d success err now =
     (case client_raw d ''run_count + 1'' of
        Inl e \<Rightarrow> Inl e
      | Inr runs \<Rightarrow>
          let updateData =
            \<lparr>upd_last_run_at = now, upd_run_count = runs, upd_updated_at = now,
             upd_next_run_at = None, upd_error_count = None, upd_last_error = None\<rparr>
          in if success then Inr (updateData\<lparr>upd_next_run_at := Some (now + 2 * 60 * 1000)\<rparr>)
             else (case client_raw d ''error_count + 1'' of
                     Inl e \<Rightarrow> Inl e
                   | Inr errs \<Rightarrow>
                       Inr (updateData\<lparr>upd_error_count := Some errs,
                                       upd_last_error := Some err\<rparr>)))"

definition sql_counter :: "deployment \<Rightarrow> nat column_value \<Rightarrow> nat \<Rightarrow> nat" where
  "sql_counter r v old =
     (case v of
        Lit n \<Rightarrow> n
      | Raw e \<Rightarrow>
          if e = ''run_count + 1'' then run_count r + 1
          else if e = ''error_count + 1'' then error_count r + 1
          else old)"

definition apply_deployment_update :: "deployment_update \<Rightarrow> deployment \<Rightarrow> deployment" where
  "apply_deployment_update u r =
     r\<lparr>last_run_at := Some (upd_last_run_at u),
       run_count := sql_counter r (upd_run_count u) (run_count r),
       deployment_updated_at := Some (upd_updated_at u),
       next_run_at := (case upd_next_run_at u of None \<Rightarrow> next_run_at r | Some t \<Rightarrow> Some t),
       error_count :=
         (case upd_error_count u of None \<Rightarrow> error_count r
          | Some v \<Rightarrow> sql_counter r v (error_count r)),
       last_error := (case upd_last_error u of None \<Rightarrow> last_error r | Some e \<Rightarrow> e)\<rparr>"

definition updateDeploymentRun ::
  "db \<Rightarrow> string \<Rightarrow> bool \<Rightarrow> string option \<Rightarrow> int \<Rightarrow> error + (deployment \<times> db)" where
  "updateDeploymentRun d deploymentId success err now =
     (case db_initialize d of
        Inl e \<Rightarrow> Inl e
      | Inr _ \<Rightarrow>
          (case updateDeploymentRun_data d success err now of
             Inl e \<Rightarrow> Inl e
           | Inr updateData \<Rightarrow>
               (case update_single (\<lambda>r. deployment_id r = deploymentId)
                       (apply_deployment_update updateData) (tbl_deployments d) of
                  Inl e \<Rightarrow> Inl e
                | Inr (r, rows) \<Rightarrow> Inr (r, d\<lparr>tbl_deployments := rows\<rparr>))))"

section \<open>Feature requests in the database service\<close>


definition getPendingFeatureRequests :: "db \<Rightarrow> error + feature_request list" where
  "getPendingFeatureRequests d =
     (case db_initialize d of
        Inl e \<Rightarrow> Inl e
      | Inr _ \<Rightarrow> Inr (filter (\<lambda>f. status f = ''pending'') (tbl_feature_requests d)))"

text \<open>
  The object \<open>updateData\<close> that \<open>updateFeatureRequestStatus\<close> builds from the status and
  the metadata. A key the code does not set is \<open>None\<close>. The status is written as given:
  the method checks it against no list.
\<close>

record feature_update =
  upd_status :: string
  upd_at :: int
  upd_implementation_started_at :: "int option"
  upd_assigned_to :: "jsval option"
  upd_implementation_completed_at :: "int option"
  upd_pull_request_url :: "jsval option"
  upd_pull_request_number :: "jsval option"
  upd_implementation_failed_at :: "int option"
  upd_implementation_error :: "jsval option"
  upd_implementation_metadata :: "metadata option"

definition when_pending :: "string \<Rightarrow> metadata \<Rightarrow> int \<Rightarrow> feature_update \<Rightarrow> feature_update" where
  "when_pending st md now u =
     (if st = ''pending'' then
        (let u1 = u\<lparr>upd_implementation_started_at := Some now\<rparr>
         in if truthy (js_prop md ''assignedTo'')
            then u1\<lparr>upd_assigned_to := Some (js_prop md ''assignedTo'')\<rparr> else u1)
      else u)"

definition when_shipped :: "string \<Rightarrow> metadata \<Rightarrow> int \<Rightarrow> feature_update \<Rightarrow> feature_update" where
  "when_shipped st md now u =
     (if st = ''shipped'' then
        (let u1 = u\<lparr>upd_implementation_completed_at := Some now\<rparr>;
             u2 = (if truthy (js_prop md ''pullRequestUrl'')
                   then u1\<lparr>upd_pull_request_url := Some (js_prop md ''pullRequestUrl'')\<rparr> else u1)
         in if truthy (js_prop md ''pullRequestNumber'')
            then u2\<lparr>upd_pull_request_number := Some (js_prop md ''pullRequestNumber'')\<rparr> else u2)
      else u)"

definition when_failed :: "string \<Rightarrow> metadata \<Rightarrow> int \<Rightarrow> feature_update \<Rightarrow> feature_update" where
  "when_failed st md now u =
     (if st = ''failed'' then
        (let u1 = u\<lparr>upd_implementation_failed_at := Some now\<rparr>
         in if truthy (js_prop md ''error'')
            then u1\<lparr>upd_implementation_error := Some (js_prop md ''error'')\<rparr> else u1)
      else u)"

definition updateFeatureRequestStatus_data :: "string \<Rightarrow> metadata \<Rightarrow> int \<Rightarrow> feature_update" where
  "updateFeatureRequestStatus_data st md now =
     (let u0 = \<lparr>upd_status = st, upd_at = now,
                upd_implementation_started_at = None, upd_assigned_to = None,
                upd_implementation_completed_at = None, upd_pull_request_url = None,
                upd_pull_request_number = None, upd_implementation_failed_at = None,
                upd_implementation_error = None, upd_implementation_metadata = None\<rparr>;
          u3 = when_failed st md now (when_shipped st md now (when_pending st md now u0))
      in if length md > 0 then u3\<lparr>upd_implementation_metadata := Some md\<rparr> else u3)"

definition keep :: "'a option \<Rightarrow> 'a \<Rightarrow> 'a" where
  "keep new old = (case new of None \<Rightarrow> old | Some v \<Rightarrow> v)"

definition apply_feature_update :: "feature_update \<Rightarrow> feature_request \<Rightarrow> feature_request" where
  "apply_feature_update u f =
     f\<lparr>status := upd_status u,
       updated_at := Some (upd_at u),
       implementation_started_at :=
         keep (map_option Some (upd_implementation_started_at u)) (implementation_started_at f),
       assigned_to := keep (upd_assigned_to u) (assigned_to f),
       implementation_completed_at :=
         keep (map_option Some (upd_implementation_completed_at u)) (implementation_completed_at f),
       pull_request_url := keep (upd_pull_request_url u) (pull_request_url f),
       pull_request_number := keep (upd_pull_request_number u) (pull_request_number f),
       implementation_failed_at :=
         keep (map_option Some (upd_implementation_failed_at u)) (implementation_failed_at f),
       implementation_error := keep (upd_implementation_error u) (implementation_error f),
       implementation_metadata :=
         keep (map_option Some (upd_implementation_metadata u)) (implementation_metadata f)\<rparr>"

definition updateFeatureRequestStatus ::
  "db \<Rightarrow> string \<Rightarrow> string \<Rightarrow> metadata \<Rightarrow> int \<Rightarrow> error + (feature_request \<times> db)" where
  "updateFeatureRequestStatus d featureId st md now =
     (case db_initialize d of
        Inl e \<Rightarrow> Inl e
      | Inr _ \<Rightarrow>
          (case update_single (\<lambda>f. feature_id f = featureId)
                  (apply_feature_update (updateFeatureRequestStatus_data st md now))
                  (tbl_feature_requests d) of
             Inl e \<Rightarrow> Inl e
           | Inr (r, rows) \<Rightarrow> Inr (r, d\<lparr>tbl_feature_requests := rows\<rparr>)))"

text \<open>
  \<open>logDeveloperAgentInteraction\<close> inserts an audit row. A failure of the insert is
  warned about and swallowed; only the failure of \<open>initialize\<close> is thrown.
\<close>

definition logDeveloperAgentInteraction :: "db \<Rightarrow> agent_log \<Rightarrow> error + db" where
  "logDeveloperAgentInteraction d entry =
     (case db_initialize d of
        Inl e \<Rightarrow> Inl e
      | Inr _ \<Rightarrow> Inr (d\<lparr>tbl_developer_agent_logs := tbl_developer_agent_logs d @ [entry]\<rparr>))"

definition log_entry ::
  "string \<Rightarrow> string \<Rightarrow> string option \<Rightarrow> string option \<Rightarrow> string \<Rightarrow> string option \<Rightarrow> int
     \<Rightarrow> agent_log" where
  "log_entry fid action sent received st err now =
     \<lparr>log_feature_request_id = fid, log_action = action, log_message_sent = sent,
      log_response_received = received, log_status = st, log_error_message = err,
      log_created_at = now\<rparr>"

section \<open>The developer-agent link\<close>

text \<open>
  A message from the developer agent: \<open>response.payload?.content\<close> may be missing.
\<close>

record dev_response =
  payload_content :: "string option"
  payload_filesModified :: "string list"

record parsed_response =
  parsed_success :: bool
  parsed_error :: bool
  pullRequestUrl :: "string option"
  pullRequestNumber :: "int option"
  filesModified :: "string list"
  parsed_content :: string

text \<open>The two markers, as UTF-8: U+2705 (white heavy check mark) and U+274C (cross mark).\<close>

definition check_mark :: string where
  "check_mark = [CHR 0xE2, CHR 0x9C, CHR 0x85]"

definition cross_mark :: string where
  "cross_mark = [CHR 0xE2, CHR 0x9D, CHR 0x8C]"

definition isDigit :: "char \<Rightarrow> bool" where
  "isDigit c = (let n = of_char c :: nat in 48 \<le> n \<and> n \<le> 57)"

definition parseInt :: "string \<Rightarrow> int" where
  "parseInt ds = foldl (\<lambda>acc c. 10 * acc + (int (of_char c) - 48)) 0 ds"

text \<open>
  The pattern \<open>https:\/\/github\.com\/[^\/]+\/[^\/]+\/pull\/(\d+)\<close> matched at the start of a
  string: the whole match and the digits of the group. Each \<open>[^\/]+\<close> has to be followed by
  a slash, so it is the run of characters up to the next slash.
\<close>

definition match_pull_request :: "string \<Rightarrow> (string \<times> string) option" where
  "match_pull_request s =
     (let host = ''https://github.com/'' in
      if \<not> startsWith s host then None
      else
        let r1 = drop (length host) s;
            owner = takeWhile (\<lambda>c. c \<noteq> CHR ''/'') r1;
            r2 = drop (length owner) r1
        in if owner = [] \<or> \<not> startsWith r2 ''/'' then None
           else
             let r3 = drop 1 r2;
                 repo = takeWhile (\<lambda>c. c \<noteq> CHR ''/'') r3;
                 r4 = drop (length repo) r3
             in if repo = [] \<or> \<not> startsWith r4 ''/pull/'' then None
                else
                  let digits = takeWhile isDigit (drop 6 r4)
                  in if digits = [] then None
                     else Some (host @ owner @ ''/'' @ repo @ ''/pull/'' @ digits, digits))"

fun find_pull_request :: "string \<Rightarrow> (string \<times> string) option" where
  "find_pull_request [] = None"
| "find_pull_request (c # cs) =
     (case match_pull_request (c # cs) of
        Some m \<Rightarrow> Some m
      | None \<Rightarrow> find_pull_request cs)"

definition parseImplementationResponse :: "dev_response \<Rightarrow> parsed_response" where
  "parseImplementationResponse response =
     (let content = (case payload_content response of None \<Rightarrow> [] | Some c \<Rightarrow> c);
          isSuccess = (str_includes content check_mark \<and>
                       str_includes content ''Implementation Complete'');
          isError = (str_includes content cross_mark \<and>
                     str_includes content ''Implementation Failed'');
          prUrlMatch = find_pull_request content
      in \<lparr>parsed_success = isSuccess, parsed_error = isError,
          pullRequestUrl = map_option fst prUrlMatch,
          pullRequestNumber = map_option (parseInt \<circ> snd) prUrlMatch,
          filesModified = payload_filesModified response,
          parsed_content = content\<rparr>)"

text \<open>
  What the scheduler cannot decide: the clock, the outcome of the HTTP call to the chat
  agent, and the outcome of the socket exchange with the developer agent (a failure to
  connect, and for each feature a reply or the time-out error).
\<close>

record chat_data =
  data_response :: "string option"
  data_message :: "string option"

record env =
  clock :: int
  chat_agent :: "string \<Rightarrow> error + chat_data"
  dev_connect :: "error option"
  dev_reply :: "feature_request \<Rightarrow> error + dev_response"

definition non_empty :: "string option \<Rightarrow> bool" where
  "non_empty v = (case v of None \<Rightarrow> False | Some s \<Rightarrow> s \<noteq> [])"

definition implementFeature :: "env \<Rightarrow> feature_request \<Rightarrow> error + dev_response" where
  "implementFeature ev featureRequest =
     (case dev_connect ev of
        Some e \<Rightarrow> Inl e
      | None \<Rightarrow>
          if \<not> non_empty (github_repo featureRequest) then
            Inl (Error (''No GitHub repository URL found for feature request: '' @
                        feature_name featureRequest))
          else dev_reply ev featureRequest)"

section \<open>The scheduler\<close>

definition or_null :: "string \<Rightarrow> string option" where
  "or_null s = (if s = [] then None else Some s)"

definition opt_val :: "string option \<Rightarrow> jsval" where
  "opt_val v = (case v of None \<Rightarrow> VNull | Some s \<Rightarrow> VStr s)"

definition opt_num :: "int option \<Rightarrow> jsval" where
  "opt_num v = (case v of None \<Rightarrow> VNull | Some n \<Rightarrow> VNum n)"

text \<open>
  The body of the inner \<open>try\<close> of \<open>processRequestedFeatureRequests\<close> for one feature.
  \<open>Inl (e, d)\<close> is the error \<open>e\<close> thrown with the database in state \<open>d\<close>.
\<close>

definition implement_try :: "env \<Rightarrow> db \<Rightarrow> feature_request \<Rightarrow> (error \<times> db) + db" where
  "implement_try ev d feature =
     (case updateFeatureRequestStatus d (feature_id feature) ''pending''
             [(''assignedTo'', VStr ''developer-agent'')] (clock ev) of
        Inl e \<Rightarrow> Inl (e, d)
      | Inr (_, d1) \<Rightarrow>
     (case logDeveloperAgentInteraction d1
             (log_entry (feature_id feature) ''send_request''
                (or_null (''implement '' @ feature_name feature)) None ''pending'' None (clock ev)) of
        Inl e \<Rightarrow> Inl (e, d1)
      | Inr d2 \<Rightarrow>
     (case implementFeature ev feature of
        Inl e \<Rightarrow> Inl (e, d2)
      | Inr result \<Rightarrow>
          let parsedResult = parseImplementationResponse result in
          if parsed_success parsedResult then
            (case updateFeatureRequestStatus d2 (feature_id feature) ''shipped''
                    [(''pullRequestUrl'', opt_val (pullRequestUrl parsedResult)),
                     (''pullRequestNumber'', opt_num (pullRequestNumber parsedResult))] (clock ev) of
               Inl e \<Rightarrow> Inl (e, d2)
             | Inr (_, d3) \<Rightarrow>
            (case logDeveloperAgentInteraction d3
                    (log_entry (feature_id feature) ''receive_response'' None
                       (or_null (parsed_content parsedResult)) ''success'' None (clock ev)) of
               Inl e \<Rightarrow> Inl (e, d3)
             | Inr d4 \<Rightarrow> Inr d4))
          else if parsed_error parsedResult then
            (case updateFeatureRequestStatus d2 (feature_id feature) ''failed''
                    [(''error'', VStr (parsed_content parsedResult))] (clock ev) of
               Inl e \<Rightarrow> Inl (e, d2)
             | Inr (_, d3) \<Rightarrow> Inr d3)
          else Inr d2)))"

text \<open>
  The inner \<open>catch\<close>: the feature is marked failed and the error is logged. An error
  thrown here leaves the loop.
\<close>

definition implement_catch :: "env \<Rightarrow> db \<Rightarrow> feature_request \<Rightarrow> error \<Rightarrow> (error \<times> db) + db" where
  "implement_catch ev d feature err =
     (case updateFeatureRequestStatus d (feature_id feature) ''failed''
             [(''error'', VStr (message err))] (clock ev) of
        Inl e \<Rightarrow> Inl (e, d)
      | Inr (_, d1) \<Rightarrow>
     (case logDeveloperAgentInteraction d1
             (log_entry (feature_id feature) ''error'' None None ''error''
                (or_null (message err)) (clock ev)) of
        Inl e \<Rightarrow> Inl (e, d1)
      | Inr d2 \<Rightarrow> Inr d2))"

definition implement_one :: "env \<Rightarrow> db \<Rightarrow> feature_request \<Rightarrow> (error \<times> db) + db" where
  "implement_one ev d feature =
     (case implement_try ev d feature of
        Inr d' \<Rightarrow> Inr d'
      | Inl (err, d') \<Rightarrow> implement_catch ev d' feature err)"



text \<open>
  \<open>checkPendingFeatureRequests\<close>: the names of the features it warns about; it calls no
  method that writes to the database. \<open>new Date(null)\<close> is the epoch.
\<close>

definition minutesPending :: "int \<Rightarrow> feature_request \<Rightarrow> real" where
  "minutesPending now feature =
     (let startedAt = (case implementation_started_at feature of None \<Rightarrow> 0 | Some t \<Rightarrow> t)
      in real_of_int (now - startedAt) / (1000 * 60))"

definition checkPendingFeatureRequests :: "agent \<Rightarrow> db \<Rightarrow> int \<Rightarrow> string list \<times> db" where
  "checkPendingFeatureRequests a d now =
     (if \<not> has_database a then ([], d)
      else case getPendingFeatureRequests d of
             Inl e \<Rightarrow> ([], d)
           | Inr pendingFeatures \<Rightarrow>
               (map feature_name (filter (\<lambda>f. minutesPending now f > 10) pendingFeatures), d))"

definition url_task :: "monitored_url \<Rightarrow> task" where
  "url_task u =
     \<lparr>task_id = ''url-'' @ url_id u,
      task_message = ''Analyze this '' @ url_type u @ '' post for feature requests: '' @ url u,
      task_type = ''url_analysis'',
      task_urlId = Some (url_id u), task_url = Some (url u), task_urlType = Some (url_type u),
      task_priority = Some (url_priority u), task_deploymentId = None, task_githubRepo = None,
      task_addedAt = None\<rparr>"

definition deployment_url :: "deployment_joined \<Rightarrow> string option" where
  "deployment_url r = map_option url (monitored_urls r)"

definition or_undefined :: "string option \<Rightarrow> string" where
  "or_undefined v = (case v of None \<Rightarrow> ''undefined'' | Some s \<Rightarrow> s)"

definition deployment_task :: "deployment_joined \<Rightarrow> task" where
  "deployment_task r =
     \<lparr>task_id = ''deployment-'' @ deployment_id r,
      task_message = ''Monitor deployment: '' @ deployment_name r @ '' - Check '' @
                     or_undefined (deployment_url r),
      task_type = ''deployment_monitoring'',
      task_urlId = None, task_url = deployment_url r, task_urlType = None,
      task_priority = None, task_deploymentId = Some (deployment_id r),
      task_githubRepo =
        Some (or_undefined (map_option repo_owner (github_repos r)) @ ''/'' @
              or_undefined (map_option repo_name (github_repos r))),
      task_addedAt = None\<rparr>"

definition build_tasks :: "monitored_url list \<Rightarrow> deployment_joined list \<Rightarrow> task list" where
  "build_tasks urlsToCheck deployments =
     map url_task urlsToCheck @
     map deployment_task (filter (\<lambda>r. non_empty (deployment_url r)) deployments)"

text \<open>
  \<open>loadTasksFromDatabase\<close>: the queue is replaced only after both queries have returned;
  an error leaves it as it was. \<open>currentTaskIndex\<close> is not touched.
\<close>

definition loadTasksFromDatabase :: "agent \<Rightarrow> db \<Rightarrow> int \<Rightarrow> agent" where
  "loadTasksFromDatabase a d now =
     (if \<not> has_database a then a
      else case getUrlsToCheck d of
             Inl e \<Rightarrow> a
           | Inr urlsToCheck \<Rightarrow>
               (case getDeploymentsToRun d now of
                  Inl e \<Rightarrow> a
                | Inr deployments \<Rightarrow> a\<lparr>taskQueue := build_tasks urlsToCheck deployments\<rparr>))"

definition default_task :: "string \<Rightarrow> string \<Rightarrow> string \<Rightarrow> task" where
  "default_task i m t =
     \<lparr>task_id = i, task_message = m, task_type = t, task_urlId = None, task_url = None,
      task_urlType = None, task_priority = None, task_deploymentId = None,
      task_githubRepo = None, task_addedAt = None\<rparr>"



record send_result =
  result_success :: bool
  result_taskId :: string
  result_request :: string
  result_response :: "chat_data option"
  result_error :: "string option"
  result_timestamp :: int


text \<open>\<open>result.error || null\<close>: an absent or empty error text becomes \<open>null\<close>.\<close>

definition error_or_null :: "send_result \<Rightarrow> string option" where
  "error_or_null result = (case result_error result of None \<Rightarrow> None | Some m \<Rightarrow> or_null m)"

definition updateDatabaseAfterExecution ::
  "agent \<Rightarrow> db \<Rightarrow> task \<Rightarrow> send_result \<Rightarrow> int \<Rightarrow> db" where
  "updateDatabaseAfterExecution a d t result now =
     (if \<not> has_database a then d
      else
        case (if task_type t = ''url_analysis'' \<and> non_empty (task_urlId t)
              then map_sum id snd (updateUrlCheckStatus d (or_undefined (task_urlId t)) now)
              else Inr d) of
          Inl e \<Rightarrow> d
        | Inr d1 \<Rightarrow>
            if task_type t = ''deployment_monitoring'' \<and> non_empty (task_deploymentId t)
            then (case updateDeploymentRun d1 (or_undefined (task_deploymentId t))
                         (result_success result) (error_or_null result) now of
                    Inl e \<Rightarrow> d1
                  | Inr (_, d2) \<Rightarrow> d2)
            else d1)"



section \<open>Saving feature requests: the tool and the HTTP routes\<close>


record feature_payload =
  p_feature_name :: string
  p_description :: string
  p_category :: string
  p_priority :: string
  p_requested_by_username :: string
  p_tweet_url :: string
  p_target_account :: string
  p_reply_text :: string
  p_status :: string


definition new_row :: "string \<Rightarrow> feature_payload \<Rightarrow> feature_request" where
  "new_row i p =
     \<lparr>feature_id = i, feature_name = p_feature_name p, description = p_description p,
      category = p_category p, priority = p_priority p,
      requested_by_username = p_requested_by_username p, tweet_url = p_tweet_url p,
      target_account = p_target_account p, reply_text = p_reply_text p, status = p_status p,
      github_repo = None, assigned_to = VNull, github_issue_url = None,
      implementation_started_at = None, implementation_completed_at = None,
      implementation_failed_at = None, pull_request_url = VNull, pull_request_number = VNull,
      implementation_error = VNull, implementation_metadata = None, updated_at = None\<rparr>"



























section \<open>The chat endpoint of the agent\<close>

record chat_message =
  role :: string
  content :: string
  timestamp :: int












section \<open>The chat intent classifier\<close>

record intent =
  intent_type :: string
  confidence :: real

definition fallbackIntentParsing :: "string \<Rightarrow> intent" where
  "fallbackIntentParsing msg =
     (let lowerMessage = toLowerCase msg in
      if str_includes lowerMessage ''deploy'' \<or>
         (str_includes lowerMessage ''github'' \<and> str_includes lowerMessage ''monitor'')
      then \<lparr>intent_type = ''deploy'', confidence = 0.6\<rparr>
      else if str_includes lowerMessage ''status'' \<or> str_includes lowerMessage ''deployment''
      then \<lparr>intent_type = ''status'', confidence = 0.6\<rparr>
      else if str_includes lowerMessage ''feature'' \<or> str_includes lowerMessage ''request''
      then \<lparr>intent_type = ''feature_query'', confidence = 0.6\<rparr>
      else if str_includes lowerMessage ''config'' \<or> str_includes lowerMessage ''setting''
      then \<lparr>intent_type = ''config'', confidence = 0.6\<rparr>
      else if str_includes lowerMessage ''help'' \<or> str_includes lowerMessage ''how''
      then \<lparr>intent_type = ''help'', confidence = 0.6\<rparr>
      else \<lparr>intent_type = ''general'', confidence = 0.4\<rparr>)"

text \<open>
  The classifier as the specification words it: a fixed table, read in order, of intents
  with their keywords; an entry matches when all keywords of one of its alternatives
  occur in the lower-cased message; the first matching entry gives the intent, with
  confidence 0.6, and no match gives \<open>general\<close> with confidence 0.4.
\<close>

definition keyword_table :: "(string \<times> string list list) list" where
  "keyword_table =
     [(''deploy'', [[''deploy''], [''github'', ''monitor'']]),
      (''status'', [[''status''], [''deployment'']]),
      (''feature_query'', [[''feature''], [''request'']]),
      (''config'', [[''config''], [''setting'']]),
      (''help'', [[''help''], [''how'']])]"

definition entry_matches :: "string \<Rightarrow> string \<times> string list list \<Rightarrow> bool" where
  "entry_matches lowered entry = list_ex (list_all (str_includes lowered)) (snd entry)"

definition classify_by_table :: "(string \<times> string list list) list \<Rightarrow> string \<Rightarrow> intent" where
  "classify_by_table table msg =
     (case find (entry_matches (toLowerCase msg)) table of
        Some entry \<Rightarrow> \<lparr>intent_type = fst entry, confidence = 0.6\<rparr>
      | None \<Rightarrow> \<lparr>intent_type = ''general'', confidence = 0.4\<rparr>)"

section \<open>The operations that write feature requests\<close>








section \<open>Concrete data for the scenarios\<close>


definition sample_raw :: "string \<Rightarrow> error + nat column_value" where
  "sample_raw e = Inr (Raw e)"


definition dark_mode :: feature_request where
  "dark_mode =
     (new_row ''f1''
        \<lparr>p_feature_name = ''dark mode'', p_description = ''a dark theme'', p_category = ''ui'',
         p_priority = ''high'', p_requested_by_username = ''alice'',
         p_tweet_url = ''https://x.com/acme/status/1'', p_target_account = ''acme'',
         p_reply_text = ''dark mode please'', p_status = ''requested''\<rparr>)
     \<lparr>github_repo := Some ''https://github.com/acme/app''\<rparr>"

definition sample_url :: monitored_url where
  "sample_url =
     \<lparr>url_id = ''u1'', url = ''https://x.com/acme/status/1'', url_type = ''twitter'',
      url_priority = ''medium'', url_status = ''active'', last_checked_at = None,
      url_updated_at = None\<rparr>"

definition sample_repo :: github_repo where
  "sample_repo = \<lparr>repo_id = ''g1'', repo_owner = ''acme'', repo_name = ''app''\<rparr>"

definition sample_deployment :: deployment where
  "sample_deployment =
     \<lparr>deployment_id = ''d1'', deployment_name = ''acme'', deployment_status = ''active'',
      github_repo_id = Some ''g1'', monitored_url_id = Some ''u1'', last_run_at = None,
      next_run_at = None, run_count = 3, error_count = 1, last_error = None,
      deployment_updated_at = None\<rparr>"

definition sample_db :: db where
  "sample_db =
     \<lparr>credentials = True, client_raw = sample_raw, tbl_monitored_urls = [sample_url],
      tbl_github_repos = [sample_repo], tbl_deployments = [sample_deployment],
      tbl_feature_requests = [dark_mode], tbl_developer_agent_logs = []\<rparr>"

definition sample_agent :: agent where
  "sample_agent =
     \<lparr>initialized = True, has_database = True, taskQueue = [], currentTaskIndex = 0\<rparr>"

definition sample_env :: env where
  "sample_env =
     \<lparr>clock = 1000000,
      chat_agent = (\<lambda>m. Inl (Error ''timeout of 30000ms exceeded'')),
      dev_connect = None,
      dev_reply = (\<lambda>f. Inr \<lparr>payload_content = Some ''Working on it'',
                              payload_filesModified = []\<rparr>)\<rparr>"


definition pending_db :: db where
  "pending_db =
     sample_db\<lparr>tbl_feature_requests :=
       [apply_feature_update
          (updateFeatureRequestStatus_data ''pending''
             [(''assignedTo'', VStr ''developer-agent'')] 1000000) dark_mode]\<rparr>"







section \<open>Unfolding the concrete data\<close>

lemmas sample_defs = sample_db_def sample_env_def sample_agent_def sample_url_def
  sample_repo_def sample_deployment_def sample_raw_def dark_mode_def new_row_def

section \<open>Round-robin properties\<close>


lemma getNextTask_queue: "taskQueue (snd (getNextTask a)) = taskQueue a"
  by (simp add: getNextTask_def)

lemma getNextTask_times_queue: "taskQueue (snd (getNextTask_times n a)) = taskQueue a"
proof (induction n arbitrary: a)
  case 0
  show ?case by simp
next
  case (Suc n)
  have "taskQueue (snd (getNextTask_times n (snd (getNextTask a)))) = taskQueue a"
    using Suc.IH [of "snd (getNextTask a)"] by (simp add: getNextTask_queue)
  then show ?case by (simp add: split_beta Let_def)
qed

lemma getNextTask_times_results:
  assumes "currentTaskIndex a < length (taskQueue a)"
  shows "fst (getNextTask_times n a) =
         map (\<lambda>k. JObj (taskQueue a ! ((currentTaskIndex a + k) mod length (taskQueue a)))) [0..<n]"
  using assms
proof (induction n arbitrary: a)
  case 0
  show ?case by simp
next
  case (Suc n)
  let ?q = "taskQueue a" and ?i = "currentTaskIndex a"
  let ?a' = "snd (getNextTask a)"
  have ne: "length ?q \<noteq> 0" using Suc.prems by auto
  have q': "taskQueue ?a' = ?q" by (rule getNextTask_queue)
  have i': "currentTaskIndex ?a' = (?i + 1) mod length ?q"
    using ne by (simp add: getNextTask_def)
  have lt: "currentTaskIndex ?a' < length (taskQueue ?a')"
    using ne by (simp add: i' q')
  have r: "fst (getNextTask a) = JObj (?q ! ?i)"
    using Suc.prems ne by (simp add: getNextTask_def arrayGet_def)
  have rest: "fst (getNextTask_times n ?a') =
      map (\<lambda>k. JObj (?q ! ((?i + Suc k) mod length ?q))) [0..<n]"
    using Suc.IH [OF lt] by (simp add: q' i' mod_add_left_eq)
  have "fst (getNextTask_times (Suc n) a) = fst (getNextTask a) # fst (getNextTask_times n ?a')"
    by (simp add: split_beta Let_def)
  also have "\<dots> = JObj (?q ! (?i mod length ?q)) # map (\<lambda>k. JObj (?q ! ((?i + Suc k) mod length ?q))) [0..<n]"
    using Suc.prems by (simp add: r rest)
  also have "\<dots> = map (\<lambda>k. JObj (?q ! ((?i + k) mod length ?q))) (0 # map Suc [0..<n])"
    by (simp add: comp_def)
  also have "0 # map Suc [0..<n] = [0..<Suc n]"
    by (simp add: upt_conv_Cons map_Suc_upt del: upt_Suc)
  finally show ?case .
qed

text \<open>
  C1. On a non-empty queue of length \<open>N\<close> with the index at 0 and no reload in between,
  \<open>N\<close> successive calls of \<open>getNextTask\<close> return the elements at positions 0 to \<open>N - 1\<close>
  in order, each once, and call \<open>N + 1\<close> returns the element at position 0 again.
\<close>

theorem getNextTask_round_robin:
  assumes "taskQueue a \<noteq> []" and "currentTaskIndex a = 0"
  shows "fst (getNextTask_times (Suc (length (taskQueue a))) a) =
         map JObj (taskQueue a @ [taskQueue a ! 0])"
proof -
  let ?q = "taskQueue a"
  have lt: "currentTaskIndex a < length ?q" using assms by simp
  have "fst (getNextTask_times (Suc (length ?q)) a) =
        map (\<lambda>k. JObj (?q ! (k mod length ?q))) [0..<Suc (length ?q)]"
    using getNextTask_times_results [OF lt, of "Suc (length ?q)"] assms(2) by simp
  also have "\<dots> = map (\<lambda>k. JObj (?q ! (k mod length ?q))) [0..<length ?q] @ [JObj (?q ! 0)]"
    by simp
  also have "map (\<lambda>k. JObj (?q ! (k mod length ?q))) [0..<length ?q] = map JObj ?q"
    by (rule nth_equalityI) simp_all
  finally show ?thesis by simp
qed

theorem getNextTask_round_robin_witness:
  "taskQueue (sample_agent\<lparr>taskQueue := [default_task ''A'' ''first'' ''custom'',
        default_task ''B'' ''second'' ''custom'', default_task ''C'' ''third'' ''custom'']\<rparr>) \<noteq> [] \<and>
   currentTaskIndex (sample_agent\<lparr>taskQueue := [default_task ''A'' ''first'' ''custom'',
        default_task ''B'' ''second'' ''custom'', default_task ''C'' ''third'' ''custom'']\<rparr>) = 0 \<and>
   fst (getNextTask_times 4
     (sample_agent\<lparr>taskQueue := [default_task ''A'' ''first'' ''custom'',
        default_task ''B'' ''second'' ''custom'', default_task ''C'' ''third'' ''custom'']\<rparr>)) =
   [JObj (default_task ''A'' ''first'' ''custom''), JObj (default_task ''B'' ''second'' ''custom''),
    JObj (default_task ''C'' ''third'' ''custom''), JObj (default_task ''A'' ''first'' ''custom'')]"
  using getNextTask_round_robin [of "sample_agent\<lparr>taskQueue := [default_task ''A'' ''first'' ''custom'',
        default_task ''B'' ''second'' ''custom'', default_task ''C'' ''third'' ''custom'']\<rparr>"]
  by (simp add: sample_agent_def eval_nat_numeral)

lemma loadTasksFromDatabase_index:
  "currentTaskIndex (loadTasksFromDatabase a d now) = currentTaskIndex a"
  by (simp add: loadTasksFromDatabase_def split: sum.splits)

text \<open>
  C10. When \<open>currentTaskIndex\<close> is at or past the length of a non-empty queue (a reload
  replaces the queue and leaves the index), \<open>getNextTask\<close> returns \<open>undefined\<close> for that
  call, reduces the index modulo the length of the queue, and the call after it
  returns a task of the queue.
\<close>

theorem getNextTask_stale_index:
  assumes "taskQueue a \<noteq> []" and "length (taskQueue a) \<le> currentTaskIndex a"
  shows "fst (getNextTask a) = JUndefined \<and>
         taskQueue (snd (getNextTask a)) = taskQueue a \<and>
         currentTaskIndex (snd (getNextTask a)) = (currentTaskIndex a + 1) mod length (taskQueue a) \<and>
         (\<exists>t \<in> set (taskQueue a). fst (getNextTask (snd (getNextTask a))) = JObj t) \<and>
         (\<forall>b d now. currentTaskIndex (loadTasksFromDatabase b d now) = currentTaskIndex b)"
proof -
  let ?n = "length (taskQueue a)"
  have ne: "?n \<noteq> 0" using assms(1) by simp
  let ?a' = "snd (getNextTask a)"
  have r: "fst (getNextTask a) = JUndefined"
    using assms ne by (simp add: getNextTask_def arrayGet_def)
  have q: "taskQueue ?a' = taskQueue a" by (rule getNextTask_queue)
  have i: "currentTaskIndex ?a' = (currentTaskIndex a + 1) mod ?n"
    using ne by (simp add: getNextTask_def)
  have lt: "currentTaskIndex ?a' < ?n" using ne by (simp add: i)
  have "fst (getNextTask ?a') = JObj (taskQueue a ! currentTaskIndex ?a')"
    using lt ne q by (simp add: getNextTask_def arrayGet_def)
  moreover have "taskQueue a ! currentTaskIndex ?a' \<in> set (taskQueue a)"
    using lt by simp
  ultimately show ?thesis using r q i loadTasksFromDatabase_index by blast
qed

theorem getNextTask_stale_index_witness:
  "taskQueue (loadTasksFromDatabase (sample_agent\<lparr>currentTaskIndex := 2\<rparr>)
      (sample_db\<lparr>tbl_deployments := []\<rparr>) 1000) = [url_task sample_url] \<and>
   currentTaskIndex (loadTasksFromDatabase (sample_agent\<lparr>currentTaskIndex := 2\<rparr>)
      (sample_db\<lparr>tbl_deployments := []\<rparr>) 1000) = 2 \<and>
   fst (getNextTask (loadTasksFromDatabase (sample_agent\<lparr>currentTaskIndex := 2\<rparr>)
      (sample_db\<lparr>tbl_deployments := []\<rparr>) 1000)) = JUndefined \<and>
   currentTaskIndex (snd (getNextTask (loadTasksFromDatabase (sample_agent\<lparr>currentTaskIndex := 2\<rparr>)
      (sample_db\<lparr>tbl_deployments := []\<rparr>) 1000))) = 0 \<and>
   fst (getNextTask (snd (getNextTask (loadTasksFromDatabase (sample_agent\<lparr>currentTaskIndex := 2\<rparr>)
      (sample_db\<lparr>tbl_deployments := []\<rparr>) 1000)))) = JObj (url_task sample_url)"
proof -
  let ?a = "loadTasksFromDatabase (sample_agent\<lparr>currentTaskIndex := 2\<rparr>)
      (sample_db\<lparr>tbl_deployments := []\<rparr>) 1000"
  have q: "taskQueue ?a = [url_task sample_url]"
    by (simp add: loadTasksFromDatabase_def sample_agent_def sample_db_def getUrlsToCheck_def
        getDeploymentsToRun_def db_initialize_def build_tasks_def sample_url_def)
  have i: "currentTaskIndex ?a = 2"
    by (simp add: loadTasksFromDatabase_index sample_agent_def)
  have h1: "taskQueue ?a \<noteq> []" and h2: "length (taskQueue ?a) \<le> currentTaskIndex ?a"
    by (simp_all add: q i)
  show ?thesis using getNextTask_stale_index [OF h1 h2] by (simp add: q i)
qed

section \<open>Reloading the queue\<close>

text \<open>
  C7. When the two queries return the same lists both times, loading the tasks twice in
  a row gives the same queue as loading them once: the same tasks in the same order.
\<close>

theorem loadTasksFromDatabase_idempotent:
  assumes "getUrlsToCheck d' = getUrlsToCheck d"
    and "getDeploymentsToRun d' now' = getDeploymentsToRun d now"
  shows "taskQueue (loadTasksFromDatabase (loadTasksFromDatabase a d now) d' now') =
         taskQueue (loadTasksFromDatabase a d now)"
  using assms by (simp add: loadTasksFromDatabase_def split: sum.splits)

theorem loadTasksFromDatabase_idempotent_witness:
  "getUrlsToCheck sample_db = getUrlsToCheck sample_db \<and>
   getDeploymentsToRun sample_db 2000 = getDeploymentsToRun sample_db 1000 \<and>
   taskQueue (loadTasksFromDatabase (loadTasksFromDatabase sample_agent sample_db 1000) sample_db 2000) =
     [url_task sample_url, deployment_task (join_deployment sample_db sample_deployment)] \<and>
   taskQueue (loadTasksFromDatabase sample_agent sample_db 1000) =
     [url_task sample_url, deployment_task (join_deployment sample_db sample_deployment)]"
proof -
  have h: "getDeploymentsToRun sample_db 2000 = getDeploymentsToRun sample_db 1000"
    by (simp add: getDeploymentsToRun_def db_initialize_def sample_db_def sample_deployment_def)
  have q: "taskQueue (loadTasksFromDatabase sample_agent sample_db 1000) =
     [url_task sample_url, deployment_task (join_deployment sample_db sample_deployment)]"
    by (simp add: loadTasksFromDatabase_def sample_agent_def sample_db_def getUrlsToCheck_def
        getDeploymentsToRun_def db_initialize_def build_tasks_def sample_url_def
        sample_deployment_def join_deployment_def deployment_url_def non_empty_def
        deployment.extend_def)
  show ?thesis
    using loadTasksFromDatabase_idempotent [OF refl h, of sample_agent] h q by simp
qed

section \<open>Status updates of feature requests\<close>



section \<open>The intent classifier\<close>

text \<open>
  C8. The intent classifier is a function of the message alone: it is the first-match
  reading of the fixed keyword table, in the order deploy, status, feature_query, config,
  help, on the lower-cased message, with confidence 0.6 for a match and the intent
  \<open>general\<close> with confidence 0.4 otherwise.
\<close>

theorem fallbackIntentParsing_table:
  "fallbackIntentParsing msg = classify_by_table keyword_table msg \<and>
   map fst keyword_table = [''deploy'', ''status'', ''feature_query'', ''config'', ''help'']"
  by (simp add: fallbackIntentParsing_def classify_by_table_def keyword_table_def
      entry_matches_def Let_def)

theorem fallbackIntentParsing_table_witness:
  "fallbackIntentParsing ''Show me the Status'' = \<lparr>intent_type = ''status'', confidence = 0.6\<rparr> \<and>
   classify_by_table keyword_table ''Show me the Status'' =
     \<lparr>intent_type = ''status'', confidence = 0.6\<rparr>"
proof -
  have l: "toLowerCase ''Show me the Status'' = ''show me the status''"
    by code_simp
  have "fallbackIntentParsing ''Show me the Status'' = \<lparr>intent_type = ''status'', confidence = 0.6\<rparr>"
    by (simp add: fallbackIntentParsing_def l)
  then show ?thesis
    using fallbackIntentParsing_table [of "''Show me the Status''"] by simp
qed

section \<open>The history of a chat session\<close>












section \<open>The feature-request pipeline of the scheduler\<close>

lemma update_single_result:
  assumes "update_single sel upd rows = Inr (r, rows')"
  shows "\<exists>x. filter sel rows = [x] \<and> r = upd x \<and>
             rows' = map (\<lambda>y. if sel y then upd y else y) rows"
  using assms by (auto simp: update_single_def split: list.splits)

lemma filter_single_mem: "filter P xs = [x] \<Longrightarrow> x \<in> set xs \<and> P x"
proof -
  assume "filter P xs = [x]"
  then have "x \<in> set (filter P xs)" by simp
  then show ?thesis by simp
qed

lemma updateFeatureRequestStatus_result:
  assumes "updateFeatureRequestStatus d i st md now = Inr (r, d')"
  shows "status r = st \<and> r \<in> set (tbl_feature_requests d') \<and> credentials d' \<and>
         tbl_developer_agent_logs d' = tbl_developer_agent_logs d"
proof -
  let ?sel = "\<lambda>f. feature_id f = i"
  let ?upd = "apply_feature_update (updateFeatureRequestStatus_data st md now)"
  from assms have c: "credentials d"
    by (auto simp: updateFeatureRequestStatus_def db_initialize_def split: if_splits)
  from assms c obtain rows' where
    u: "update_single ?sel ?upd (tbl_feature_requests d) = Inr (r, rows')"
    and d': "d' = d\<lparr>tbl_feature_requests := rows'\<rparr>"
    by (auto simp: updateFeatureRequestStatus_def db_initialize_def split: sum.splits)
  from update_single_result [OF u] obtain x where
    x: "filter ?sel (tbl_feature_requests d) = [x]" and r: "r = ?upd x"
    and rows': "rows' = map (\<lambda>y. if ?sel y then ?upd y else y) (tbl_feature_requests d)"
    by blast
  have xm: "x \<in> set (tbl_feature_requests d)" and xs: "?sel x"
    using filter_single_mem [OF x] by simp_all
  have "status r = st"
    by (simp add: r apply_feature_update_def updateFeatureRequestStatus_data_def
        when_pending_def when_shipped_def when_failed_def Let_def)
  moreover have "r \<in> set rows'"
    unfolding rows' r using xm xs by (auto simp: image_iff intro!: bexI [of _ x])
  ultimately show ?thesis using c d' by simp
qed

lemma minutesPending_ms:
  "(10 < minutesPending now f) =
   (600000 < now - (case implementation_started_at f of None \<Rightarrow> 0 | Some t \<Rightarrow> t))"
proof -
  let ?s = "case implementation_started_at f of None \<Rightarrow> 0 | Some t \<Rightarrow> t"
  have "(10 < minutesPending now f) = (10 * 60000 < real_of_int (now - ?s))"
    by (simp add: minutesPending_def Let_def field_simps)
  also have "\<dots> = (real_of_int 600000 < real_of_int (now - ?s))" by simp
  also have "\<dots> = (600000 < now - ?s)" by (simp only: of_int_less_iff)
  finally show ?thesis .
qed

text \<open>
  C5. When the developer agent answers with a content that has neither the success marker
  (the check mark together with \<open>Implementation Complete\<close>) nor the failure marker (the
  cross mark together with \<open>Implementation Failed\<close>), processing the answer makes no status
  update: after the update to \<open>pending\<close> only the audit row is added, and the request
  stays \<open>pending\<close>. The sweep over the pending requests returns the database as it was; it
  warns about the pending requests started more than 10 minutes (600000 ms) ago.
\<close>

theorem unmarked_response_stays_pending:
  assumes "updateFeatureRequestStatus d (feature_id f) ''pending''
             [(''assignedTo'', VStr ''developer-agent'')] (clock ev) = Inr (r, d1)"
    and "implementFeature ev f = Inr response"
    and "\<not> (str_includes (parsed_content (parseImplementationResponse response)) check_mark \<and>
            str_includes (parsed_content (parseImplementationResponse response))
              ''Implementation Complete'')"
    and "\<not> (str_includes (parsed_content (parseImplementationResponse response)) cross_mark \<and>
            str_includes (parsed_content (parseImplementationResponse response))
              ''Implementation Failed'')"
  shows "implement_one ev d f =
           Inr (d1\<lparr>tbl_developer_agent_logs := tbl_developer_agent_logs d1 @
                  [log_entry (feature_id f) ''send_request''
                     (or_null (''implement '' @ feature_name f)) None ''pending'' None
                     (clock ev)]\<rparr>) \<and>
         status r = ''pending'' \<and> r \<in> set (tbl_feature_requests d1) \<and>
         snd (checkPendingFeatureRequests a d2 now) = d2 \<and>
         fst (checkPendingFeatureRequests a d2 now) =
           (if has_database a \<and> credentials d2
            then map feature_name
                   (filter (\<lambda>x. 600000 < now - (case implementation_started_at x of
                                                    None \<Rightarrow> 0 | Some t \<Rightarrow> t))
                      (filter (\<lambda>x. status x = ''pending'') (tbl_feature_requests d2)))
            else [])"
proof -
  note res = updateFeatureRequestStatus_result [OF assms(1)]
  have flags: "\<not> parsed_success (parseImplementationResponse response)"
    "\<not> parsed_error (parseImplementationResponse response)"
    using assms(3,4) by (simp_all add: parseImplementationResponse_def Let_def)
  have "implement_try ev d f =
           Inr (d1\<lparr>tbl_developer_agent_logs := tbl_developer_agent_logs d1 @
                  [log_entry (feature_id f) ''send_request''
                     (or_null (''implement '' @ feature_name f)) None ''pending'' None
                     (clock ev)]\<rparr>)"
    using res flags
    by (simp add: implement_try_def assms(1,2) logDeveloperAgentInteraction_def
        db_initialize_def Let_def)
  then have one: "implement_one ev d f =
           Inr (d1\<lparr>tbl_developer_agent_logs := tbl_developer_agent_logs d1 @
                  [log_entry (feature_id f) ''send_request''
                     (or_null (''implement '' @ feature_name f)) None ''pending'' None
                     (clock ev)]\<rparr>)"
    by (simp add: implement_one_def)
  have sweep: "snd (checkPendingFeatureRequests a d2 now) = d2"
    by (simp add: checkPendingFeatureRequests_def split: sum.splits)
  have warn: "fst (checkPendingFeatureRequests a d2 now) =
           (if has_database a \<and> credentials d2
            then map feature_name
                   (filter (\<lambda>x. 600000 < now - (case implementation_started_at x of
                                                    None \<Rightarrow> 0 | Some t \<Rightarrow> t))
                      (filter (\<lambda>x. status x = ''pending'') (tbl_feature_requests d2)))
            else [])"
    by (simp add: checkPendingFeatureRequests_def getPendingFeatureRequests_def
        db_initialize_def minutesPending_ms)
  show ?thesis using one res sweep warn by simp
qed


theorem unmarked_response_stays_pending_witness:
  "updateFeatureRequestStatus sample_db (feature_id dark_mode) ''pending''
     [(''assignedTo'', VStr ''developer-agent'')] (clock sample_env) =
     Inr (hd (tbl_feature_requests pending_db), pending_db) \<and>
   implementFeature sample_env dark_mode =
     Inr \<lparr>payload_content = Some ''Working on it'', payload_filesModified = []\<rparr> \<and>
   implement_one sample_env sample_db dark_mode =
     Inr (pending_db\<lparr>tbl_developer_agent_logs :=
            [log_entry ''f1'' ''send_request'' (Some ''implement dark mode'') None ''pending'' None
               1000000]\<rparr>) \<and>
   map status (tbl_feature_requests pending_db) = [''pending''] \<and>
   checkPendingFeatureRequests sample_agent pending_db 2000000 = ([''dark mode''], pending_db)"
proof -
  have h1: "updateFeatureRequestStatus sample_db (feature_id dark_mode) ''pending''
     [(''assignedTo'', VStr ''developer-agent'')] (clock sample_env) =
     Inr (hd (tbl_feature_requests pending_db), pending_db)"
    by (simp add: updateFeatureRequestStatus_def update_single_def db_initialize_def
        pending_db_def sample_defs)
  have h2: "implementFeature sample_env dark_mode =
     Inr \<lparr>payload_content = Some ''Working on it'', payload_filesModified = []\<rparr>"
    by (simp add: implementFeature_def non_empty_def sample_defs)
  have c: "parsed_content (parseImplementationResponse
      \<lparr>payload_content = Some ''Working on it'', payload_filesModified = []\<rparr>) = ''Working on it''"
    by (simp add: parseImplementationResponse_def Let_def)
  have h3: "\<not> (str_includes (parsed_content (parseImplementationResponse
      \<lparr>payload_content = Some ''Working on it'', payload_filesModified = []\<rparr>)) check_mark \<and>
      str_includes (parsed_content (parseImplementationResponse
      \<lparr>payload_content = Some ''Working on it'', payload_filesModified = []\<rparr>))
        ''Implementation Complete'')"
    unfolding c by (simp add: check_mark_def)
  have h4: "\<not> (str_includes (parsed_content (parseImplementationResponse
      \<lparr>payload_content = Some ''Working on it'', payload_filesModified = []\<rparr>)) cross_mark \<and>
      str_includes (parsed_content (parseImplementationResponse
      \<lparr>payload_content = Some ''Working on it'', payload_filesModified = []\<rparr>))
        ''Implementation Failed'')"
    unfolding c by (simp add: cross_mark_def)
  have p: "tbl_developer_agent_logs pending_db = []" "credentials pending_db"
    "has_database sample_agent" "clock sample_env = 1000000"
    "feature_id dark_mode = ''f1''" "feature_name dark_mode = ''dark mode''"
    by (simp_all add: pending_db_def sample_defs)
  have q: "tbl_feature_requests pending_db =
      [apply_feature_update (updateFeatureRequestStatus_data ''pending''
             [(''assignedTo'', VStr ''developer-agent'')] 1000000) dark_mode]"
    by (simp add: pending_db_def)
  have st: "status (apply_feature_update (updateFeatureRequestStatus_data ''pending''
             [(''assignedTo'', VStr ''developer-agent'')] 1000000) dark_mode) = ''pending''"
    "implementation_started_at (apply_feature_update (updateFeatureRequestStatus_data ''pending''
             [(''assignedTo'', VStr ''developer-agent'')] 1000000) dark_mode) = Some 1000000"
    "feature_name (apply_feature_update (updateFeatureRequestStatus_data ''pending''
             [(''assignedTo'', VStr ''developer-agent'')] 1000000) dark_mode) = ''dark mode''"
    by (simp_all add: apply_feature_update_def updateFeatureRequestStatus_data_def
        when_pending_def when_shipped_def when_failed_def keep_def Let_def sample_defs)
  show ?thesis
    using unmarked_response_stays_pending [OF h1 h2 h3 h4, of sample_agent pending_db 2000000]
      h1 h2
    by (simp add: p q st or_null_def prod_eq_iff)
qed


section \<open>A failing chat agent during a tick\<close>






text \<open>
  When the call of \<open>raw\<close> throws instead, \<open>updateDeploymentRun\<close> throws before any
  request is sent; \<open>updateDatabaseAfterExecution\<close> catches the error and the database stays
  as it was.
\<close>

lemma updateDeploymentRun_without_raw:
  assumes "client_raw d ''run_count + 1'' = Inl e"
  shows "tbl_deployments (updateDatabaseAfterExecution a d t result now) = tbl_deployments d"
  using assms
  by (auto simp: updateDatabaseAfterExecution_def updateUrlCheckStatus_def
      updateDeploymentRun_def updateDeploymentRun_data_def split: sum.splits prod.splits)









section \<open>Saving a feature request twice\<close>









section \<open>The status values that are written\<close>
































end
